theory Spec2Isabelle
  imports Complex_Main "HOL-Library.Sublist"
begin

section \<open>Text and decoded JSON values\<close>

text \<open>
  Text is a list of 8-bit characters. The values that \<^verbatim>\<open>json.loads\<close> returns are
  \<^verbatim>\<open>None\<close>, booleans, integers, floats, strings, lists and dictionaries. A float is kept
  as the lexeme it was read from: the program never computes with one, it only tests it for
  truth and renders it, and both are taken from the environment (see \<open>env\<close> below).
  A dictionary is an association list in insertion order with distinct keys.
\<close>

datatype json =
    JNull
  | JBool bool
  | JInt int
  | JFloat string
  | JStr string
  | JArr "json list"
  | JObj "(string \<times> json) list"

text \<open>\<^verbatim>\<open>d[k] = v\<close>: an existing key keeps its position and takes the new value.\<close>

fun dict_set :: "string \<Rightarrow> json \<Rightarrow> (string \<times> json) list \<Rightarrow> (string \<times> json) list" where
  "dict_set k v [] = [(k, v)]"
| "dict_set k v (p # ps) = (if fst p = k then (k, v) # ps else p # dict_set k v ps)"

text \<open>\<^verbatim>\<open>d.get(k, default)\<close>.\<close>

definition dict_get :: "(string \<times> json) list \<Rightarrow> string \<Rightarrow> json \<Rightarrow> json" where
  "dict_get d k dflt = (case map_of d k of None \<Rightarrow> dflt | Some v \<Rightarrow> v)"

subsection \<open>The decoder \<^verbatim>\<open>json.loads\<close>\<close>

text \<open>
  The decoder of the Python standard library, in two passes: the text is cut into tokens,
  and the tokens are read by a stack automaton. \<open>None\<close> is \<^verbatim>\<open>JSONDecodeError\<close>.
  As in Python, \<^verbatim>\<open>NaN\<close>, \<^verbatim>\<open>Infinity\<close> and \<^verbatim>\<open>-Infinity\<close> are accepted, a control
  character inside a string is refused, and a repeated key keeps its last value.
  An escape \<^verbatim>\<open>\uXXXX\<close> above 255 has no 8-bit character: it is decoded to the character 255,
  one per escape; no test of the program can tell it from the character it stands for,
  since the program compares decoded strings with ASCII literals only.
  Limits of the interpreter (recursion depth, the length of an integer literal) are outside
  this model.
\<close>

datatype token =
    TLBrace | TRBrace | TLBrack | TRBrack | TColon | TComma
  | TStr string | TInt int | TFloat string | TTrue | TFalse | TNull

definition ord :: "char \<Rightarrow> nat" where
  "ord c = of_char c"

definition is_digit :: "char \<Rightarrow> bool" where
  "is_digit c = (ord CHR ''0'' \<le> ord c \<and> ord c \<le> ord CHR ''9'')"

definition digit_val :: "char \<Rightarrow> nat" where
  "digit_val c = ord c - ord CHR ''0''"

definition hex_val :: "char \<Rightarrow> nat option" where
  "hex_val c =
     (if is_digit c then Some (digit_val c)
      else if ord CHR ''a'' \<le> ord c \<and> ord c \<le> ord CHR ''f''
        then Some (ord c - ord CHR ''a'' + 10)
      else if ord CHR ''A'' \<le> ord c \<and> ord c \<le> ord CHR ''F''
        then Some (ord c - ord CHR ''A'' + 10)
      else None)"

definition hex4 :: "char \<Rightarrow> char \<Rightarrow> char \<Rightarrow> char \<Rightarrow> char option" where
  "hex4 a b c d =
     (case (hex_val a, hex_val b, hex_val c, hex_val d) of
        (Some w, Some x, Some y, Some z) \<Rightarrow>
          (let n = ((w * 16 + x) * 16 + y) * 16 + z
           in Some (if n < 256 then char_of n else CHR 0xFF))
      | _ \<Rightarrow> None)"

definition unescape :: "char \<Rightarrow> char option" where
  "unescape e =
     (if e = CHR 0x22 then Some (CHR 0x22)
      else if e = CHR 0x5C then Some (CHR 0x5C)
      else if e = CHR ''/'' then Some (CHR ''/'')
      else if e = CHR ''b'' then Some (CHR 0x08)
      else if e = CHR ''f'' then Some (CHR 0x0C)
      else if e = CHR ''n'' then Some (CHR 0x0A)
      else if e = CHR ''r'' then Some (CHR 0x0D)
      else if e = CHR ''t'' then Some (CHR 0x09)
      else None)"

text \<open>
  \<open>scan_string acc cs\<close> reads a string body up to its closing quote; \<open>acc\<close> holds the
  decoded characters so far, last first. The result is the decoded string and the rest.
\<close>

fun scan_string :: "string \<Rightarrow> string \<Rightarrow> (string \<times> string) option" where
  "scan_string acc [] = None"
| "scan_string acc (c # cs) =
     (if c = CHR 0x22 then Some (rev acc, cs)
      else if c = CHR 0x5C then
        (case cs of
           [] \<Rightarrow> None
         | e # r \<Rightarrow>
             if e = CHR ''u'' then
               (case r of
                  h1 # h2 # h3 # h4 # r' \<Rightarrow>
                    (case hex4 h1 h2 h3 h4 of
                       None \<Rightarrow> None
                     | Some x \<Rightarrow> scan_string (x # acc) r')
                | _ \<Rightarrow> None)
             else
               (case unescape e of
                  None \<Rightarrow> None
                | Some x \<Rightarrow> scan_string (x # acc) r))
      else if ord c < 32 then None
      else scan_string (c # acc) cs)"

definition int_of_digits :: "string \<Rightarrow> int" where
  "int_of_digits ds = foldl (\<lambda>n c. n * 10 + int (digit_val c)) 0 ds"

text \<open>
  \<open>scan_number neg cs\<close> reads a number whose first digit is the head of \<open>cs\<close>, by the
  decoder's pattern \<^verbatim>\<open>(0|[1-9]\d*)(\.\d+)?([eE][-+]?\d+)?\<close>: an integer when there is
  neither fraction nor exponent, a float otherwise.
\<close>

definition scan_number :: "bool \<Rightarrow> string \<Rightarrow> token \<times> string" where
  "scan_number neg cs =
     (let ip = (if take 1 cs = ''0'' then ''0'' else takeWhile is_digit cs);
          r1 = drop (length ip) cs;
          fd = (if take 1 r1 = ''.'' then takeWhile is_digit (drop 1 r1) else []);
          fp = (if fd = [] then [] else CHR ''.'' # fd);
          r2 = drop (length fp) r1;
          sg = (if take 1 r2 = ''e'' \<or> take 1 r2 = ''E''
                then (if take 1 (drop 1 r2) = ''+'' \<or> take 1 (drop 1 r2) = ''-''
                      then take 2 r2 else take 1 r2)
                else []);
          ed = (if sg = [] then [] else takeWhile is_digit (drop (length sg) r2));
          ep = (if ed = [] then [] else sg @ ed);
          r3 = drop (length ep) r2;
          s = (if neg then ''-'' else [])
      in if fp = [] \<and> ep = []
         then (TInt ((if neg then - 1 else 1) * int_of_digits ip), r3)
         else (TFloat (s @ ip @ fp @ ep), r3))"

definition is_ws :: "char \<Rightarrow> bool" where
  "is_ws c = (c = CHR '' '' \<or> c = CHR 0x09 \<or> c = CHR 0x0A \<or> c = CHR 0x0D)"

definition starts_with :: "string \<Rightarrow> string \<Rightarrow> bool" where
  "starts_with p s = (take (length p) s = p)"

lemma scan_string_shorter:
  "scan_string acc cs = Some (s, r) \<Longrightarrow> length r < length cs"
proof (induction acc cs rule: scan_string.induct)
  case (1 acc)
  then show ?case by simp
next
  case (2 acc c cs)
  show ?case
  proof (cases "c = CHR 0x22")
    case True
    with 2(4) show ?thesis by simp
  next
    case nq: False
    show ?thesis
    proof (cases "c = CHR 0x5C")
      case True
      show ?thesis
      proof (cases cs)
        case Nil
        with 2(4) nq True show ?thesis by simp
      next
        case (Cons e r0)
        show ?thesis
        proof (cases "e = CHR ''u''")
          case eu: True
          from 2(4) nq True Cons eu obtain h1 h2 h3 h4 r' x where
            r0: "r0 = h1 # h2 # h3 # h4 # r'" and hx: "hex4 h1 h2 h3 h4 = Some x"
            and sc: "scan_string (x # acc) r' = Some (s, r)"
            by (auto split: list.splits option.splits)
          from 2(1)[OF nq True Cons eu r0 refl refl refl hx sc] show ?thesis using Cons r0 by simp
        next
          case eu: False
          from 2(4) nq True Cons eu obtain x where
            ux: "unescape e = Some x" and sc: "scan_string (x # acc) r0 = Some (s, r)"
            by (auto split: option.splits)
          from 2(2)[OF nq True Cons eu ux sc] show ?thesis using Cons by simp
        qed
      qed
    next
      case nb: False
      from 2(4) nq nb have lo: "\<not> ord c < 32" and sc: "scan_string (c # acc) cs = Some (s, r)"
        by (auto split: if_splits)
      from 2(3)[OF nq nb lo sc] show ?thesis by simp
    qed
  qed
qed

lemma scan_number_rest:
  "\<exists>n. snd (scan_number neg cs) = drop n cs \<and> (cs \<noteq> [] \<and> is_digit (hd cs) \<longrightarrow> 0 < n)"
proof -
  define ip where "ip = (if take 1 cs = ''0'' then ''0'' else takeWhile is_digit cs)"
  define r1 where "r1 = drop (length ip) cs"
  define fd where "fd = (if take 1 r1 = ''.'' then takeWhile is_digit (drop 1 r1) else [])"
  define fp where "fp = (if fd = [] then [] else CHR ''.'' # fd)"
  define r2 where "r2 = drop (length fp) r1"
  define sg where "sg = (if take 1 r2 = ''e'' \<or> take 1 r2 = ''E''
                then (if take 1 (drop 1 r2) = ''+'' \<or> take 1 (drop 1 r2) = ''-''
                      then take 2 r2 else take 1 r2)
                else [])"
  define ed where "ed = (if sg = [] then [] else takeWhile is_digit (drop (length sg) r2))"
  define ep where "ep = (if ed = [] then [] else sg @ ed)"
  define r3 where "r3 = drop (length ep) r2"
  have "snd (scan_number neg cs) = r3"
    unfolding scan_number_def Let_def r3_def ep_def ed_def sg_def r2_def fp_def fd_def r1_def ip_def
    by (simp only: if_distrib[of snd] snd_conv if_cancel)
  moreover have "r3 = drop (length ep + length fp + length ip) cs"
    by (simp add: r3_def r2_def r1_def add.commute add.left_commute)
  moreover have "cs \<noteq> [] \<and> is_digit (hd cs) \<longrightarrow> 0 < length ip"
    by (cases cs) (auto simp: ip_def)
  ultimately show ?thesis by auto
qed

lemma scan_number_shorter:
  "scan_number neg cs = (t, r) \<Longrightarrow> length r \<le> length cs"
  using scan_number_rest[of neg cs] by auto

lemma scan_number_digit_shorter:
  "is_digit c \<Longrightarrow> scan_number neg (c # cs) = (t, r) \<Longrightarrow> length r \<le> length cs"
  using scan_number_rest[of neg "c # cs"] by auto

function lex :: "string \<Rightarrow> token list option" where
  "lex [] = Some []"
| "lex (c # cs) =
     (if is_ws c then lex cs
      else if c = CHR ''{'' then map_option ((#) TLBrace) (lex cs)
      else if c = CHR ''}'' then map_option ((#) TRBrace) (lex cs)
      else if c = CHR ''['' then map_option ((#) TLBrack) (lex cs)
      else if c = CHR '']'' then map_option ((#) TRBrack) (lex cs)
      else if c = CHR '':'' then map_option ((#) TColon) (lex cs)
      else if c = CHR '','' then map_option ((#) TComma) (lex cs)
      else if c = CHR 0x22 then
        (case scan_string [] cs of
           None \<Rightarrow> None
         | Some (s, r) \<Rightarrow> map_option ((#) (TStr s)) (lex r))
      else if starts_with ''true'' (c # cs) then map_option ((#) TTrue) (lex (drop 3 cs))
      else if starts_with ''false'' (c # cs) then map_option ((#) TFalse) (lex (drop 4 cs))
      else if starts_with ''null'' (c # cs) then map_option ((#) TNull) (lex (drop 3 cs))
      else if starts_with ''NaN'' (c # cs) then map_option ((#) (TFloat ''NaN'')) (lex (drop 2 cs))
      else if starts_with ''Infinity'' (c # cs)
        then map_option ((#) (TFloat ''Infinity'')) (lex (drop 7 cs))
      else if starts_with ''-Infinity'' (c # cs)
        then map_option ((#) (TFloat ''-Infinity'')) (lex (drop 8 cs))
      else if is_digit c then
        (case scan_number False (c # cs) of (t, r) \<Rightarrow> map_option ((#) t) (lex r))
      else if c = CHR ''-'' \<and> cs \<noteq> [] \<and> is_digit (hd cs) then
        (case scan_number True cs of (t, r) \<Rightarrow> map_option ((#) t) (lex r))
      else None)"
  by pat_completeness auto
termination
  by (relation "measure length")
     (auto dest: scan_string_shorter scan_number_shorter[OF sym]
        scan_number_digit_shorter[OF _ sym])

text \<open>
  The automaton. \<open>frame\<close> is a container under construction: a list (elements last
  first), a dictionary waiting for a key or a separator, or a dictionary with the key whose
  value is being read.
\<close>

datatype frame =
    FArr "json list"
  | FObj "(string \<times> json) list"
  | FObjV "(string \<times> json) list" string

datatype pstate =
    PValue      \<comment> \<open>a value must follow\<close>
  | PArrFirst   \<comment> \<open>after \<^verbatim>\<open>[\<close>: a value or \<^verbatim>\<open>]\<close>\<close>
  | PObjFirst   \<comment> \<open>after \<^verbatim>\<open>{\<close>: a key or \<^verbatim>\<open>}\<close>\<close>
  | PObjKey     \<comment> \<open>after a comma in a dictionary: a key\<close>
  | PColon      \<comment> \<open>after a key: a colon\<close>
  | PAfter      \<comment> \<open>after a value in a container: a comma or the closing bracket\<close>
  | PDone json  \<comment> \<open>the document is complete\<close>

fun push_value :: "json \<Rightarrow> frame list \<Rightarrow> (pstate \<times> frame list) option" where
  "push_value v [] = Some (PDone v, [])"
| "push_value v (FArr acc # fs) = Some (PAfter, FArr (v # acc) # fs)"
| "push_value v (FObjV d k # fs) = Some (PAfter, FObj (dict_set k v d) # fs)"
| "push_value v (FObj d # fs) = None"

fun scalar :: "token \<Rightarrow> json option" where
  "scalar (TStr s) = Some (JStr s)"
| "scalar (TInt n) = Some (JInt n)"
| "scalar (TFloat x) = Some (JFloat x)"
| "scalar TTrue = Some (JBool True)"
| "scalar TFalse = Some (JBool False)"
| "scalar TNull = Some JNull"
| "scalar _ = None"

definition pstep :: "token \<Rightarrow> pstate \<Rightarrow> frame list \<Rightarrow> (pstate \<times> frame list) option" where
  "pstep t st fs =
     (case st of
        PDone v \<Rightarrow> None
      | PColon \<Rightarrow> (if t = TColon then Some (PValue, fs) else None)
      | PObjKey \<Rightarrow>
          (case (t, fs) of
             (TStr k, FObj d # fs') \<Rightarrow> Some (PColon, FObjV d k # fs')
           | _ \<Rightarrow> None)
      | PObjFirst \<Rightarrow>
          (case (t, fs) of
             (TStr k, FObj d # fs') \<Rightarrow> Some (PColon, FObjV d k # fs')
           | (TRBrace, FObj d # fs') \<Rightarrow> push_value (JObj d) fs'
           | _ \<Rightarrow> None)
      | PAfter \<Rightarrow>
          (case (t, fs) of
             (TComma, FArr acc # fs') \<Rightarrow> Some (PValue, fs)
           | (TRBrack, FArr acc # fs') \<Rightarrow> push_value (JArr (rev acc)) fs'
           | (TComma, FObj d # fs') \<Rightarrow> Some (PObjKey, fs)
           | (TRBrace, FObj d # fs') \<Rightarrow> push_value (JObj d) fs'
           | _ \<Rightarrow> None)
      | _ \<Rightarrow>
          (if t = TLBrack then Some (PArrFirst, FArr [] # fs)
           else if t = TLBrace then Some (PObjFirst, FObj [] # fs)
           else if t = TRBrack \<and> st = PArrFirst then push_value (JArr []) (tl fs)
           else (case scalar t of None \<Rightarrow> None | Some v \<Rightarrow> push_value v fs)))"

fun parse_tokens :: "pstate \<Rightarrow> frame list \<Rightarrow> token list \<Rightarrow> json option" where
  "parse_tokens st fs [] = (case st of PDone v \<Rightarrow> Some v | _ \<Rightarrow> None)"
| "parse_tokens st fs (t # ts) =
     (case pstep t st fs of
        None \<Rightarrow> None
      | Some (st', fs') \<Rightarrow> parse_tokens st' fs' ts)"

definition json_loads :: "string \<Rightarrow> json option" where
  "json_loads s = (case lex s of None \<Rightarrow> None | Some ts \<Rightarrow> parse_tokens PValue [] ts)"

subsection \<open>Truth value and rendering of a decoded value\<close>

text \<open>\<^verbatim>\<open>sep.join(xs)\<close>.\<close>

fun join :: "string \<Rightarrow> string list \<Rightarrow> string" where
  "join sep [] = []"
| "join sep [x] = x"
| "join sep (x # y # ys) = x @ sep @ join sep (y # ys)"

function show_nat :: "nat \<Rightarrow> string" where
  "show_nat n =
     (if n < 10 then [char_of (48 + n)]
      else show_nat (n div 10) @ [char_of (48 + n mod 10)])"
  by pat_completeness auto
termination
  by (relation "measure id") auto

definition show_int :: "int \<Rightarrow> string" where
  "show_int i = (if i < 0 then CHR ''-'' # show_nat (nat (- i)) else show_nat (nat i))"

definition hex_digit :: "nat \<Rightarrow> char" where
  "hex_digit n = (if n < 10 then char_of (48 + n) else char_of (87 + n))"

text \<open>
  \<^verbatim>\<open>repr\<close> of a string: double quotes when the string holds a single quote and no double
  quote, single quotes otherwise; the quote and the backslash are escaped, and so is every
  character that is not printable.
\<close>

definition repr_char :: "char \<Rightarrow> char \<Rightarrow> string" where
  "repr_char q c =
     (if c = q \<or> c = CHR 0x5C then [CHR 0x5C, c]
      else if c = CHR 0x09 then [CHR 0x5C, CHR ''t'']
      else if c = CHR 0x0A then [CHR 0x5C, CHR ''n'']
      else if c = CHR 0x0D then [CHR 0x5C, CHR ''r'']
      else if ord c < 32 \<or> ord c = 127 \<or> (128 \<le> ord c \<and> ord c \<le> 160) \<or> ord c = 173
        then [CHR 0x5C, CHR ''x'', hex_digit (ord c div 16), hex_digit (ord c mod 16)]
      else [c])"

definition str_repr :: "string \<Rightarrow> string" where
  "str_repr s =
     (let q = (if CHR 0x27 \<in> set s \<and> CHR 0x22 \<notin> set s then CHR 0x22 else CHR 0x27)
      in q # concat (map (repr_char q) s) @ [q])"

text \<open>
  \<open>py_repr fr v\<close> is \<^verbatim>\<open>repr(v)\<close>, where \<open>fr\<close> renders a float from its lexeme;
  \<open>py_str fr v\<close> is \<^verbatim>\<open>str(v)\<close>, the text an f-string or \<^verbatim>\<open>print\<close> produces.
\<close>

fun py_repr :: "(string \<Rightarrow> string) \<Rightarrow> json \<Rightarrow> string" where
  "py_repr fr JNull = ''None''"
| "py_repr fr (JBool b) = (if b then ''True'' else ''False'')"
| "py_repr fr (JInt i) = show_int i"
| "py_repr fr (JFloat x) = fr x"
| "py_repr fr (JStr s) = str_repr s"
| "py_repr fr (JArr xs) = ''['' @ join '', '' (map (py_repr fr) xs) @ '']''"
| "py_repr fr (JObj d) =
     ''{'' @ join '', '' (map (\<lambda>kv. str_repr (fst kv) @ '': '' @ py_repr fr (snd kv)) d) @ ''}''"

fun py_str :: "(string \<Rightarrow> string) \<Rightarrow> json \<Rightarrow> string" where
  "py_str fr (JStr s) = s"
| "py_str fr v = py_repr fr v"

text \<open>The truth value of \<^verbatim>\<open>if v:\<close>, where \<open>fz\<close> tells whether a float is zero.\<close>

fun truthy :: "(string \<Rightarrow> bool) \<Rightarrow> json \<Rightarrow> bool" where
  "truthy fz JNull = False"
| "truthy fz (JBool b) = b"
| "truthy fz (JInt i) = (i \<noteq> 0)"
| "truthy fz (JFloat x) = (\<not> fz x)"
| "truthy fz (JStr s) = (s \<noteq> [])"
| "truthy fz (JArr xs) = (xs \<noteq> [])"
| "truthy fz (JObj d) = (d \<noteq> [])"

section \<open>The environment\<close>

text \<open>
  Everything the program reaches over the network, the clock and the float arithmetic of the
  interpreter is a field of the environment: a theorem that holds for every environment
  holds whatever the models, the search engine and the web answer.
\<close>

text \<open>
  The reply of \<^verbatim>\<open>ollama.AsyncClient.chat\<close>: the program reads
  \<^verbatim>\<open>response['message']['content']\<close> and, when present,
  \<^verbatim>\<open>response['message']['thinking']\<close>. The call can also raise
  \<^verbatim>\<open>ollama.ResponseError\<close> (with its \<^verbatim>\<open>error\<close> text) or another exception.
\<close>

datatype response = Response (msg_content: string) (msg_thinking: "string option")

datatype chat_result =
    ChatOk response
  | ChatResponseError string
  | ChatException string

datatype role = System | User | Assistant | Tool

record turn =
  role :: role
  content :: string

text \<open>
  A result of \<^verbatim>\<open>googlesearch.search(..., advanced=True)\<close>; its rendering is the one of
  the library's \<^verbatim>\<open>SearchResult.__repr__\<close>.
\<close>

record search_result =
  url :: string
  title :: string
  description :: string

text \<open>
  What \<^verbatim>\<open>httpx\<close> and \<^verbatim>\<open>BeautifulSoup\<close> give for a URL: the text of the page without
  its scripts and styles (\<^verbatim>\<open>soup.get_text()\<close>), an \<^verbatim>\<open>httpx.RequestError\<close> (the URL of
  the request and the message), or another exception (its message).
\<close>

datatype page_result =
    PageText string
  | PageRequestError string string
  | PageException string

record env =
  expert_chat :: "string \<Rightarrow> real \<Rightarrow> bool \<Rightarrow> turn list \<Rightarrow> chat_result"
  panel_chat :: "string \<Rightarrow> real \<Rightarrow> json \<Rightarrow> chat_result"
  google_search :: "json \<Rightarrow> string + search_result list"
  get_page :: "json \<Rightarrow> page_result"
  float_repr :: "string \<Rightarrow> string"
  float_is_zero :: "string \<Rightarrow> bool"
  system_prompt :: string
  now :: string
  timestamp :: string

section \<open>Output streams\<close>

text \<open>
  What \<^verbatim>\<open>print\<close> writes to the standard output: a text, the response object of the
  expert's chat call (\<^verbatim>\<open>print(response)\<close>), or the prompt of \<^verbatim>\<open>input\<close>.
\<close>

datatype printed =
    PText string
  | PResponse response
  | PPrompt

text \<open>
  The messages written with \<^verbatim>\<open>cprint(..., file=sys.stderr)\<close>, one constructor per call
  site, carrying the values the message is formatted from.
\<close>

datatype diag =
    DFetching json
  | DFetched json
  | DFetchError string
  | DSearching json
  | DFound nat
  | DSearchError string
  | DQuerying string real
  | DPanelistError string string
  | DInitializing
  | DExpert string real
  | DPanel "(string \<times> real) list"
  | DConsulting json
  | DConsulted
  | DStep nat int
  | DWantsTool json
  | DReason json
  | DConvoWritten string
  | DUnknownTool json
  | DInvalidJson
  | DMaxSteps
  | DFatal string
  | DUnexpected string

section \<open>Helper functions\<close>

subsection \<open>\<^verbatim>\<open>read_webpage\<close>\<close>

definition is_space :: "char \<Rightarrow> bool" where
  "is_space c =
     ((9 \<le> ord c \<and> ord c \<le> 13) \<or> (28 \<le> ord c \<and> ord c \<le> 32) \<or> ord c = 133 \<or> ord c = 160)"

definition strip :: "string \<Rightarrow> string" where
  "strip s = rev (dropWhile is_space (rev (dropWhile is_space s)))"

definition is_linebreak :: "char \<Rightarrow> bool" where
  "is_linebreak c =
     ((10 \<le> ord c \<and> ord c \<le> 13) \<or> (28 \<le> ord c \<and> ord c \<le> 30) \<or> ord c = 133)"

text \<open>\<^verbatim>\<open>text.splitlines()\<close>; \<open>acc\<close> is the current line, last character first.\<close>

fun splitlines :: "string \<Rightarrow> string \<Rightarrow> string list" where
  "splitlines acc [] = (if acc = [] then [] else [rev acc])"
| "splitlines acc [c] = (if is_linebreak c then [rev acc] else [rev (c # acc)])"
| "splitlines acc (c # d # cs) =
     (if c = CHR 0x0D \<and> d = CHR 0x0A then rev acc # splitlines [] cs
      else if is_linebreak c then rev acc # splitlines [] (d # cs)
      else splitlines (c # acc) (d # cs))"

text \<open>\<^verbatim>\<open>line.split("  ")\<close>: the pieces between occurrences of two spaces.\<close>

fun split2 :: "string \<Rightarrow> string \<Rightarrow> string list" where
  "split2 acc [] = [rev acc]"
| "split2 acc [c] = [rev (c # acc)]"
| "split2 acc (c # d # cs) =
     (if c = CHR '' '' \<and> d = CHR '' '' then rev acc # split2 [] cs
      else split2 (c # acc) (d # cs))"

definition clean_text :: "string \<Rightarrow> string" where
  "clean_text text =
     (let lines = map strip (splitlines [] text);
          chunks = concat (map (\<lambda>line. map strip (split2 [] line)) lines)
      in join ''\<newline>'' (filter (\<lambda>chunk. chunk \<noteq> []) chunks))"

text \<open>The result is the returned text and the messages written to the standard error.\<close>

definition read_webpage :: "env \<Rightarrow> json \<Rightarrow> string \<times> diag list" where
  "read_webpage e u =
     (case get_page e u of
        PageText text \<Rightarrow>
          (''Content from '' @ py_str (float_repr e) u @ '':\<newline>\<newline>''
             @ take 4000 (clean_text text) @ ''...'',
           [DFetching u, DFetched u])
      | PageRequestError ru msg \<Rightarrow>
          (let error_msg = ''Error fetching URL '' @ ru @ '': '' @ msg
           in (error_msg, [DFetching u, DFetchError error_msg]))
      | PageException msg \<Rightarrow>
          (let error_msg = ''An unexpected error occurred while processing ''
                 @ py_str (float_repr e) u @ '': '' @ msg
           in (error_msg, [DFetching u, DFetchError error_msg])))"

subsection \<open>\<^verbatim>\<open>search_web\<close>\<close>

text \<open>\<^verbatim>\<open>sub in s\<close>.\<close>

fun contains :: "string \<Rightarrow> string \<Rightarrow> bool" where
  "contains sub [] = (sub = [])"
| "contains sub (c # cs) = (starts_with sub (c # cs) \<or> contains sub cs)"

definition show_result :: "search_result \<Rightarrow> string" where
  "show_result sr =
     ''SearchResult(url='' @ url sr @ '', title='' @ title sr
       @ '', description='' @ description sr @ '')''"

definition search_web :: "env \<Rightarrow> json \<Rightarrow> string \<times> diag list" where
  "search_web e query =
     (case google_search e query of
        Inl msg \<Rightarrow>
          (''An error occurred during the Google search.'', [DSearching query, DSearchError msg])
      | Inr found \<Rightarrow>
          (let results = filter (\<lambda>result. \<not> contains ''substack.com'' (url result)) found
           in if results = [] then (''No results found.'', [DSearching query])
              else (''Google Search Results for '' @ [CHR 0x27] @ py_str (float_repr e) query
                      @ [CHR 0x27] @ '':\<newline>\<newline>''
                      @ join ''\<newline>'' (map show_result results),
                    [DSearching query, DFound (length results)])))"

section \<open>The panel\<close>

record panel_member =
  model :: string
  temperature :: real

text \<open>
  What \<^verbatim>\<open>asyncio.gather(..., return_exceptions=True)\<close> holds for one member: the text
  that \<^verbatim>\<open>PanelMember.query\<close> returned, or the exception it raised (its message).
\<close>

datatype gathered = Returned string | Raised string

text \<open>
  \<^verbatim>\<open>PanelMember.query\<close>: the reply of the model; an \<^verbatim>\<open>ollama.ResponseError\<close> is caught
  and becomes an error text; any other exception leaves the method.
\<close>

definition query :: "env \<Rightarrow> panel_member \<Rightarrow> json \<Rightarrow> gathered" where
  "query e member question =
     (case panel_chat e (model member) (temperature member) question of
        ChatOk response \<Rightarrow> Returned (msg_content response)
      | ChatResponseError err \<Rightarrow>
          Returned (''Error: Could not get a response from model '' @ [CHR 0x27] @ model member
                      @ [CHR 0x27] @ ''.'')
      | ChatException msg \<Rightarrow> Raised msg)"

definition query_errors :: "env \<Rightarrow> panel_member \<Rightarrow> json \<Rightarrow> diag list" where
  "query_errors e member question =
     (case panel_chat e (model member) (temperature member) question of
        ChatResponseError err \<Rightarrow> [DPanelistError (model member) err]
      | _ \<Rightarrow> [])"

text \<open>
  \<^verbatim>\<open>ExpertSystem._query_panel\<close>, in three parts: the prompt, the sections of the combined
  text, and the method itself. The method returns the combined text, the messages written
  to the standard error and the requests sent, as pairs of a model and the prompt it
  received. The members are queried concurrently; their results are collected in the order
  of the panel. In the standard error each member's first message comes when its task
  starts, in the order of the panel; the error messages that follow are written as the
  calls fail, and the model lists them in the order of the panel.
\<close>

definition panel_prompt :: "env \<Rightarrow> json \<Rightarrow> string list \<Rightarrow> json" where
  "panel_prompt e question tool_outputs =
     (let context = join ''\<newline>\<newline>'' tool_outputs
      in if context \<noteq> []
         then JStr (py_str (float_repr e) question
                      @ ''\<newline>\<newline>Context from previous tool outputs:\<newline>'' @ context)
         else question)"

definition panel_section :: "panel_member \<Rightarrow> gathered \<Rightarrow> string" where
  "panel_section member resp =
     (case resp of
        Returned text \<Rightarrow>
          ''Response from '' @ [CHR 0x27] @ model member @ [CHR 0x27] @ '':\<newline>'' @ text
      | Raised msg \<Rightarrow> ''Exception from panelist '' @ model member @ '': '' @ msg)"

definition panel_responses :: "env \<Rightarrow> panel_member list \<Rightarrow> json \<Rightarrow> string list" where
  "panel_responses e panel prompt =
     map (\<lambda>(member, resp). panel_section member resp)
       (zip panel (map (\<lambda>member. query e member prompt) panel))"

definition query_panel ::
  "env \<Rightarrow> panel_member list \<Rightarrow> json \<Rightarrow> string list
     \<Rightarrow> string \<times> diag list \<times> (string \<times> json) list" where
  "query_panel e panel question tool_outputs =
     (let prompt = panel_prompt e question tool_outputs
      in (join ''\<newline>\<newline>---\<newline>\<newline>'' (panel_responses e panel prompt),
          [DConsulting question]
            @ map (\<lambda>member. DQuerying (model member) (temperature member)) panel
            @ concat (map (\<lambda>member. query_errors e member prompt) panel)
            @ [DConsulted],
          map (\<lambda>member. (model member, prompt)) panel))"

section \<open>The expert system\<close>

record expert_system =
  expert_model :: string
  expert_temp :: real
  max_reasoning_steps :: int
  panel :: "panel_member list"

text \<open>The flags of \<^verbatim>\<open>get_consensus_answer\<close>.\<close>

record flags =
  verbose :: bool
  thinking :: bool
  write_convo :: bool

text \<open>
  The state of a session and of the process around it: the two lists of
  \<^verbatim>\<open>get_consensus_answer\<close>, the two output streams, the files written, and two
  observations that the program does not store: the number of iterations of the loop begun
  in this session, and the requests sent to the models of the panel.
\<close>

record state =
  conversation_history :: "turn list"
  tool_outputs :: "string list"
  stdout :: "printed list"
  stderr :: "diag list"
  files :: "(string \<times> turn list) list"
  steps :: nat
  panel_requests :: "(string \<times> json) list"

text \<open>
  The exceptions that leave \<^verbatim>\<open>get_consensus_answer\<close>: the expert's chat call fails, or
  the decoded reply is not a dictionary and has no \<^verbatim>\<open>get\<close>; \<^verbatim>\<open>EOFError\<close> is raised
  by \<^verbatim>\<open>input\<close> in \<^verbatim>\<open>main\<close>.
\<close>

datatype exn =
    ResponseError string
  | AttributeError json
  | OtherException string
  | EOFError

text \<open>
  The ways a session ends. The method itself returns nothing; the outcome names the
  \<^verbatim>\<open>return\<close> (or the exception) that ended it.
\<close>

datatype outcome =
    Concluded json
  | UnknownTool json
  | RawFallback
  | StepsExhausted
  | Failed exn

definition thinking_block :: "string \<Rightarrow> string" where
  "thinking_block t = ''\<newline>--- Expert Thinking ---\<newline>'' @ t @ ''\<newline>''"

text \<open>
  What \<^verbatim>\<open>if verbose and 'thinking' in response['message']: print(...)\<close> writes to the
  standard output.
\<close>

definition thinking_prints :: "flags \<Rightarrow> response \<Rightarrow> printed list" where
  "thinking_prints fl response =
     (if verbose fl
      then (case msg_thinking response of
              Some t \<Rightarrow> [PText (thinking_block t)]
            | None \<Rightarrow> [])
      else [])"

definition exhaustion_notice :: string where
  "exhaustion_notice = ''The expert could not reach a consensus in the allowed number of steps.''"

text \<open>The end of an iteration that ran a tool (\<^verbatim>\<open>if tool_output:\<close>).\<close>

definition record_tool_output :: "string \<Rightarrow> state \<Rightarrow> outcome option \<times> state" where
  "record_tool_output tool_output s =
     (None,
      if tool_output \<noteq> []
      then s\<lparr>conversation_history :=
               conversation_history s @ [\<lparr>role = Tool, content = tool_output\<rparr>],
             tool_outputs := tool_outputs s @ [tool_output]\<rparr>
      else s)"

definition using_header :: "env \<Rightarrow> string \<Rightarrow> json \<Rightarrow> json \<Rightarrow> string" where
  "using_header e tool arg tool_reason =
     ''Using '' @ tool @ ''('' @ py_str (float_repr e) arg @ '') with reason '' @ [CHR 0x27]
       @ py_str (float_repr e) tool_reason @ [CHR 0x27] @ ''.\<newline>Output:\<newline>''"

text \<open>
  The body of the \<^verbatim>\<open>try\<close> after a successful \<^verbatim>\<open>json.loads\<close> of a dictionary:
  \<open>None\<close> when the loop goes on, the outcome when the method returns.
\<close>

definition dispatch ::
  "env \<Rightarrow> expert_system \<Rightarrow> flags \<Rightarrow> response \<Rightarrow> (string \<times> json) list \<Rightarrow> state
     \<Rightarrow> outcome option \<times> state" where
  "dispatch e self fl response tool_call s0 =
     (let tool_name = dict_get tool_call ''tool'' JNull;
          tool_reason = dict_get tool_call ''reason'' JNull;
          s = s0\<lparr>stderr := stderr s0 @ [DWantsTool tool_name]
                   @ (if truthy (float_is_zero e) tool_reason then [DReason tool_reason] else [])\<rparr>
      in if tool_name = JStr ''llama_panel'' then
           (let question = dict_get tool_call ''question'' (JStr []);
                (panel_output, ds, reqs) = query_panel e (panel self) question (tool_outputs s)
            in record_tool_output
                 (using_header e ''llama_panel'' question tool_reason @ panel_output)
                 (s\<lparr>stderr := stderr s @ ds, panel_requests := panel_requests s @ reqs\<rparr>))
         else if tool_name = JStr ''search_web'' then
           (let q = dict_get tool_call ''query'' (JStr []);
                (search_output, ds) = search_web e q
            in record_tool_output
                 (using_header e ''search_web'' q tool_reason @ search_output)
                 (s\<lparr>stderr := stderr s @ ds\<rparr>))
         else if tool_name = JStr ''read_webpage'' then
           (let u = dict_get tool_call ''url'' (JStr []);
                (webpage_output, ds) = read_webpage e u
            in record_tool_output
                 (using_header e ''read_webpage'' u tool_reason @ webpage_output)
                 (s\<lparr>stderr := stderr s @ ds\<rparr>))
         else if tool_name = JStr ''final_answer'' then
           (let answer = dict_get tool_call ''answer'' (JStr ''No answer provided.'');
                s1 = s\<lparr>stdout := stdout s @ [PText (py_str (float_repr e) answer)]\<rparr>;
                fname = ''llama-panel-'' @ timestamp e @ ''.convo''
            in (Some (Concluded answer),
                if write_convo fl
                then s1\<lparr>files := files s1 @ [(fname, conversation_history s1)],
                        stderr := stderr s1 @ [DConvoWritten fname]\<rparr>
                else s1))
         else
           (Some (UnknownTool tool_name),
            s\<lparr>stderr := stderr s @ [DUnknownTool tool_name],
              stdout := stdout s @ [PResponse response]\<rparr>))"

text \<open>One iteration of the loop of \<^verbatim>\<open>get_consensus_answer\<close>.\<close>

definition loop_body :: "env \<Rightarrow> expert_system \<Rightarrow> flags \<Rightarrow> state \<Rightarrow> outcome option \<times> state" where
  "loop_body e self fl s0 =
     (let s = s0\<lparr>steps := Suc (steps s0),
                 stderr := stderr s0 @ [DStep (Suc (steps s0)) (max_reasoning_steps self)]\<rparr>
      in case expert_chat e (expert_model self) (expert_temp self) (thinking fl)
                (conversation_history s) of
           ChatResponseError err \<Rightarrow> (Some (Failed (ResponseError err)), s)
         | ChatException msg \<Rightarrow> (Some (Failed (OtherException msg)), s)
         | ChatOk response \<Rightarrow>
             (let assistant_message = msg_content response;
                  s1 = s\<lparr>stdout := stdout s @ thinking_prints fl response\<rparr>;
                  s2 = s1\<lparr>conversation_history :=
                            conversation_history s1
                              @ [\<lparr>role = Assistant, content = assistant_message\<rparr>]\<rparr>
              in case json_loads assistant_message of
                   None \<Rightarrow>
                     (Some RawFallback,
                      s2\<lparr>stderr := stderr s2 @ [DInvalidJson],
                         stdout := stdout s2 @ [PResponse response]\<rparr>)
                 | Some (JObj tool_call) \<Rightarrow> dispatch e self fl response tool_call s2
                 | Some v \<Rightarrow> (Some (Failed (AttributeError v)), s2)))"

text \<open>
  The loop \<^verbatim>\<open>for i in range(self.max_reasoning_steps)\<close> with \<open>n\<close> iterations left, and
  the two statements after it.
\<close>

fun run_steps :: "env \<Rightarrow> expert_system \<Rightarrow> flags \<Rightarrow> nat \<Rightarrow> state \<Rightarrow> outcome \<times> state" where
  "run_steps e self fl 0 s =
     (StepsExhausted,
      s\<lparr>stderr := stderr s @ [DMaxSteps], stdout := stdout s @ [PText exhaustion_notice]\<rparr>)"
| "run_steps e self fl (Suc n) s =
     (case loop_body e self fl s of
        (Some out, s') \<Rightarrow> (out, s')
      | (None, s') \<Rightarrow> run_steps e self fl n s')"

text \<open>
  \<^verbatim>\<open>get_consensus_answer\<close>, started in the state \<open>s\<close> of the process: the session has
  its own history and list of tool outputs; the streams and files are those of the process.
\<close>

definition seed_history :: "env \<Rightarrow> string \<Rightarrow> turn list" where
  "seed_history e user_prompt =
     [\<lparr>role = System, content = system_prompt e @ ''Current date: '' @ now e\<rparr>,
      \<lparr>role = User, content = user_prompt\<rparr>]"

definition get_consensus_answer ::
  "env \<Rightarrow> expert_system \<Rightarrow> string \<Rightarrow> flags \<Rightarrow> state \<Rightarrow> outcome \<times> state" where
  "get_consensus_answer e self user_prompt fl s =
     run_steps e self fl (nat (max_reasoning_steps self))
       (s\<lparr>conversation_history := seed_history e user_prompt, tool_outputs := [], steps := 0\<rparr>)"

section \<open>The command line program\<close>

text \<open>
  \<^verbatim>\<open>main\<close> after the parsing of its arguments: the expert and the panel are pairs of a
  model and a temperature, \<open>question\<close> is the optional positional argument, and
  \<open>inputs\<close> are the lines that \<^verbatim>\<open>input\<close> will read. The result is the exit status of
  the process and its final state. Signals are outside this model.
\<close>

record args =
  question :: "string option"
  expert :: "string \<times> real"
  panel_configs :: "(string \<times> real) list"
  max_steps :: int
  arg_flags :: flags

definition type_name :: "json \<Rightarrow> string" where
  "type_name v =
     (case v of
        JNull \<Rightarrow> ''NoneType'' | JBool b \<Rightarrow> ''bool'' | JInt i \<Rightarrow> ''int''
      | JFloat x \<Rightarrow> ''float'' | JStr t \<Rightarrow> ''str'' | JArr xs \<Rightarrow> ''list'' | JObj d \<Rightarrow> ''dict'')"

definition exn_text :: "exn \<Rightarrow> string" where
  "exn_text x =
     (case x of
        ResponseError err \<Rightarrow> err
      | AttributeError v \<Rightarrow>
          [CHR 0x27] @ type_name v @ [CHR 0x27] @ '' object has no attribute ''
            @ [CHR 0x27] @ ''get'' @ [CHR 0x27]
      | OtherException msg \<Rightarrow> msg
      | EOFError \<Rightarrow> ''EOF when reading a line'')"

text \<open>The two \<^verbatim>\<open>except\<close> clauses of \<^verbatim>\<open>main\<close>: both end the process with status 1.\<close>

definition handler :: "exn \<Rightarrow> state \<Rightarrow> int \<times> state" where
  "handler x s =
     (case x of
        ResponseError err \<Rightarrow> (1, s\<lparr>stderr := stderr s @ [DFatal err]\<rparr>)
      | _ \<Rightarrow> (1, s\<lparr>stderr := stderr s @ [DUnexpected (exn_text x)]\<rparr>))"

definition ExpertSystem :: "args \<Rightarrow> expert_system \<times> diag list" where
  "ExpertSystem a =
     (\<lparr>expert_model = fst (expert a), expert_temp = snd (expert a),
       max_reasoning_steps = max_steps a,
       panel = map (\<lambda>(name, temp). \<lparr>model = name, temperature = temp\<rparr>) (panel_configs a)\<rparr>,
      [DInitializing, DExpert (fst (expert a)) (snd (expert a)), DPanel (panel_configs a)])"

definition lower_char :: "char \<Rightarrow> char" where
  "lower_char c =
     (if (65 \<le> ord c \<and> ord c \<le> 90) \<or> (192 \<le> ord c \<and> ord c \<le> 222 \<and> ord c \<noteq> 215)
      then char_of (ord c + 32) else c)"

definition lower :: "string \<Rightarrow> string" where
  "lower s = map lower_char s"

text \<open>The loop \<^verbatim>\<open>while True\<close> of the interactive mode, over the lines still to be read.\<close>

fun interactive :: "env \<Rightarrow> expert_system \<Rightarrow> flags \<Rightarrow> string list \<Rightarrow> state \<Rightarrow> int \<times> state" where
  "interactive e self fl [] s = handler EOFError (s\<lparr>stdout := stdout s @ [PPrompt]\<rparr>)"
| "interactive e self fl (user_input # rest) s =
     (let s1 = s\<lparr>stdout := stdout s @ [PPrompt]\<rparr>
      in if lower user_input = ''exit'' \<or> lower user_input = ''quit''
         then (0, s1\<lparr>stdout := stdout s1 @ [PText ''Goodbye!'']\<rparr>)
         else (case get_consensus_answer e self user_input fl s1 of
                 (Failed x, s2) \<Rightarrow> handler x s2
               | (_, s2) \<Rightarrow> interactive e self fl rest s2))"

definition initial_state :: state where
  "initial_state =
     \<lparr>conversation_history = [], tool_outputs = [], stdout = [], stderr = [], files = [],
      steps = 0, panel_requests = []\<rparr>"

definition main :: "env \<Rightarrow> args \<Rightarrow> string list \<Rightarrow> int \<times> state" where
  "main e a inputs =
     (let (system, ds) = ExpertSystem a;
          s = initial_state\<lparr>stderr := ds\<rparr>
      in case question a of
           Some (c # cs) \<Rightarrow>
             (case get_consensus_answer e system (c # cs) (arg_flags a) s of
                (Failed x, s') \<Rightarrow> handler x s'
              | (_, s') \<Rightarrow> (0, s'))
         | _ \<Rightarrow>
             interactive e system (arg_flags a) inputs
               (s\<lparr>stdout := [PText ''\<newline>Welcome to Llama Panel Interactive Chat!'']\<rparr>))"

section \<open>Notions used in the statements\<close>

text \<open>\<^verbatim>\<open>isinstance(v, dict)\<close>.\<close>

definition is_dict :: "json \<Rightarrow> bool" where
  "is_dict v = (case v of JObj d \<Rightarrow> True | _ \<Rightarrow> False)"

text \<open>
  \<open>occurrences sub s k\<close> lists the positions at which \<open>sub\<close> occurs in \<open>s\<close>, counted
  from \<open>k\<close>.
\<close>

fun occurrences :: "string \<Rightarrow> string \<Rightarrow> nat \<Rightarrow> nat list" where
  "occurrences sub [] k = (if sub = [] then [k] else [])"
| "occurrences sub (c # cs) k =
     (if starts_with sub (c # cs) then [k] else []) @ occurrences sub cs (Suc k)"



section \<open>Example environments\<close>

text \<open>
  An environment whose expert gives the same reply, with the same thinking trace, at every
  step; the first model of the panel answers, the second fails with a
  \<^verbatim>\<open>ResponseError\<close>, every other one with another exception; the search engine finds
  one page and one page of a filtered domain.
\<close>

definition example_env :: "string \<Rightarrow> string option \<Rightarrow> env" where
  "example_env reply trace =
     \<lparr>expert_chat = (\<lambda>m t th h. ChatOk (Response reply trace)),
      panel_chat = (\<lambda>m t q.
         if m = ''gemma3:4b'' then ChatOk (Response ''Forty-two.'' None)
         else if m = ''granite3.3:2b'' then ChatResponseError ''model not found''
         else ChatException ''connection refused''),
      google_search = (\<lambda>q.
         Inr [\<lparr>url = ''https://example.org/a'', title = ''A'', description = ''first''\<rparr>,
              \<lparr>url = ''https://x.substack.com/b'', title = ''B'', description = ''second''\<rparr>]),
      get_page = (\<lambda>u. PageText ''  Hello   world  ''),
      float_repr = (\<lambda>x. x),
      float_is_zero = (\<lambda>x. False),
      system_prompt = ''You are a master expert AI.'',
      now = ''2025-01-01 12:00:00'',
      timestamp = ''20250101-120000''\<rparr>"

definition example_panel :: "panel_member list" where
  "example_panel =
     [\<lparr>model = ''gemma3:4b'', temperature = 0.5\<rparr>,
      \<lparr>model = ''granite3.3:2b'', temperature = 0.5\<rparr>,
      \<lparr>model = ''qwen3:4b'', temperature = 0.5\<rparr>]"

definition example_system :: "int \<Rightarrow> expert_system" where
  "example_system n =
     \<lparr>expert_model = ''mistral-small3.2'', expert_temp = 0, max_reasoning_steps = n,
      panel = example_panel\<rparr>"

definition example_flags :: "bool \<Rightarrow> flags" where
  "example_flags v = \<lparr>verbose = v, thinking = v, write_convo = False\<rparr>"

definition example_args :: "string option \<Rightarrow> int \<Rightarrow> args" where
  "example_args q n =
     \<lparr>question = q, expert = (''mistral-small3.2'', 0),
      panel_configs = [(''gemma3:4b'', 0.5), (''granite3.3:2b'', 0.5), (''qwen3:4b'', 0.5)],
      max_steps = n, arg_flags = example_flags False\<rparr>"

text \<open>Replies of the expert used in the examples.\<close>

definition search_reply :: string where
  \<open>search_reply = ''{"tool":"search_web","query":"x","reason":"r"}''\<close>




definition fly_reply :: string where
  \<open>fly_reply = ''{"tool":"fly_to_moon"}''\<close>

definition prose_reply :: string where
  "prose_reply = ''I think the answer is 42''"

definition string_42_reply :: string where
  \<open>string_42_reply = ''"42"''\<close>

section \<open>Properties of the loop\<close>

subsection \<open>The history and the number of iterations\<close>

lemma loop_body_history:
  "prefix (conversation_history s) (conversation_history (snd (loop_body e self fl s)))"
  by (auto simp: loop_body_def dispatch_def record_tool_output_def Let_def
      split: chat_result.splits option.splits json.splits prod.splits)

lemma loop_body_steps: "steps (snd (loop_body e self fl s)) = Suc (steps s)"
  by (auto simp: loop_body_def dispatch_def record_tool_output_def Let_def
      split: chat_result.splits option.splits json.splits prod.splits)

lemma run_steps_history:
  "prefix (conversation_history s) (conversation_history (snd (run_steps e self fl n s)))"
proof (induction n arbitrary: s)
  case 0
  show ?case by simp
next
  case (Suc n)
  obtain r s' where lb: "loop_body e self fl s = (r, s')" by (cases "loop_body e self fl s")
  have p: "prefix (conversation_history s) (conversation_history s')"
    using loop_body_history[of s e self fl] lb by simp
  show ?case
  proof (cases r)
    case None
    with lb Suc.IH[of s'] p show ?thesis by (auto intro: prefix_order.trans)
  next
    case (Some out)
    with lb p show ?thesis by simp
  qed
qed

lemma run_steps_bound:
  "steps (snd (run_steps e self fl n s)) \<le> steps s + n"
proof (induction n arbitrary: s)
  case 0
  show ?case by simp
next
  case (Suc n)
  obtain r s' where lb: "loop_body e self fl s = (r, s')" by (cases "loop_body e self fl s")
  have p: "steps s' = Suc (steps s)"
    using loop_body_steps[of e self fl s] lb by simp
  show ?case
  proof (cases r)
    case None
    with lb Suc.IH[of s'] p show ?thesis by auto
  next
    case (Some out)
    with lb p show ?thesis by simp
  qed
qed

text \<open>
  C9. The conversation history is append-only: the history before an iteration of the loop
  is an initial segment of the history after it, so no entry is removed, reordered or
  changed and the length never decreases; the same holds from any state of the loop to the
  end of the session, and the history of a finished session starts with its two seed
  entries.
\<close>

theorem history_append_only:
  "prefix (conversation_history s) (conversation_history (snd (loop_body e self fl s)))
   \<and> length (conversation_history s) \<le> length (conversation_history (snd (loop_body e self fl s)))
   \<and> prefix (conversation_history s) (conversation_history (snd (run_steps e self fl n s)))
   \<and> length (conversation_history s)
        \<le> length (conversation_history (snd (run_steps e self fl n s)))
   \<and> prefix (seed_history e user_prompt)
        (conversation_history (snd (get_consensus_answer e self user_prompt fl s)))"
proof -
  have a: "prefix (conversation_history s) (conversation_history (snd (loop_body e self fl s)))"
    by (rule loop_body_history)
  have b: "prefix (conversation_history s) (conversation_history (snd (run_steps e self fl n s)))"
    by (rule run_steps_history)
  have c: "prefix (seed_history e user_prompt)
        (conversation_history (snd (get_consensus_answer e self user_prompt fl s)))"
    unfolding get_consensus_answer_def
    using run_steps_history[of "s\<lparr>conversation_history := seed_history e user_prompt,
        tool_outputs := [], steps := 0\<rparr>" e self fl "nat (max_reasoning_steps self)"]
    by simp
  from a b c show ?thesis by (simp add: prefix_length_le)
qed

subsection \<open>The cases of one iteration\<close>

lemma loop_body_raw:
  assumes "expert_chat e (expert_model self) (expert_temp self) (thinking fl)
             (conversation_history s) = ChatOk r"
    and "json_loads (msg_content r) = None"
  shows "loop_body e self fl s =
    (Some RawFallback,
     s\<lparr>steps := Suc (steps s),
       stderr := stderr s @ [DStep (Suc (steps s)) (max_reasoning_steps self), DInvalidJson],
       stdout := stdout s @ thinking_prints fl r @ [PResponse r],
       conversation_history :=
         conversation_history s @ [\<lparr>role = Assistant, content = msg_content r\<rparr>]\<rparr>)"
  using assms by (simp add: loop_body_def Let_def)

lemma loop_body_not_dict:
  assumes "expert_chat e (expert_model self) (expert_temp self) (thinking fl)
             (conversation_history s) = ChatOk r"
    and "json_loads (msg_content r) = Some v" and "\<not> is_dict v"
  shows "loop_body e self fl s =
    (Some (Failed (AttributeError v)),
     s\<lparr>steps := Suc (steps s),
       stderr := stderr s @ [DStep (Suc (steps s)) (max_reasoning_steps self)],
       stdout := stdout s @ thinking_prints fl r,
       conversation_history :=
         conversation_history s @ [\<lparr>role = Assistant, content = msg_content r\<rparr>]\<rparr>)"
  using assms by (cases v) (simp_all add: loop_body_def Let_def is_dict_def)

lemma loop_body_dict:
  assumes "expert_chat e (expert_model self) (expert_temp self) (thinking fl)
             (conversation_history s) = ChatOk r"
    and "json_loads (msg_content r) = Some (JObj d)"
  shows "loop_body e self fl s =
    dispatch e self fl r d
     (s\<lparr>steps := Suc (steps s),
       stderr := stderr s @ [DStep (Suc (steps s)) (max_reasoning_steps self)],
       stdout := stdout s @ thinking_prints fl r,
       conversation_history :=
         conversation_history s @ [\<lparr>role = Assistant, content = msg_content r\<rparr>]\<rparr>)"
  using assms by (simp add: loop_body_def Let_def)

lemma dispatch_unknown:
  assumes "dict_get d ''tool'' JNull = name"
    and "name \<noteq> JStr ''llama_panel''" and "name \<noteq> JStr ''search_web''"
    and "name \<noteq> JStr ''read_webpage''" and "name \<noteq> JStr ''final_answer''"
  shows "fst (dispatch e self fl r d s) = Some (UnknownTool name)
    \<and> stdout (snd (dispatch e self fl r d s)) = stdout s @ [PResponse r]
    \<and> steps (snd (dispatch e self fl r d s)) = steps s
    \<and> conversation_history (snd (dispatch e self fl r d s)) = conversation_history s"
  using assms by (simp add: dispatch_def Let_def)


lemma dispatch_tool:
  assumes "dict_get d ''tool'' JNull = name"
    and "name = JStr ''llama_panel'' \<or> name = JStr ''search_web'' \<or> name = JStr ''read_webpage''"
  shows "fst (dispatch e self fl r d s) = None
    \<and> stdout (snd (dispatch e self fl r d s)) = stdout s
    \<and> steps (snd (dispatch e self fl r d s)) = steps s"
  using assms
  by (auto simp: dispatch_def Let_def record_tool_output_def split: prod.splits)

lemma run_steps_stop:
  "loop_body e self fl s = (Some out, s') \<Longrightarrow> run_steps e self fl (Suc n) s = (out, s')"
  by simp

lemma run_steps_continue:
  "loop_body e self fl s = (None, s') \<Longrightarrow>
     run_steps e self fl (Suc n) s = run_steps e self fl n s'"
  by simp

lemma loads_search:
  "json_loads search_reply
     = Some (JObj [(''tool'', JStr ''search_web''), (''query'', JStr ''x''),
                   (''reason'', JStr ''r'')])"
  by code_simp




lemma loads_fly:
  "json_loads fly_reply = Some (JObj [(''tool'', JStr ''fly_to_moon'')])"
  by code_simp

lemma loads_prose: "json_loads prose_reply = None"
  by code_simp

lemma loads_string_42: "json_loads string_42_reply = Some (JStr ''42'')"
  by code_simp

lemma loads_seven: "json_loads ''7'' = Some (JInt 7)"
  by code_simp

lemma example_chat [simp]:
  "expert_chat (example_env reply trace) m t th h = ChatOk (Response reply trace)"
  by (simp add: example_env_def)

lemma get_consensus_answer_Suc:
  "max_reasoning_steps self = 1 + int n \<Longrightarrow>
   get_consensus_answer e self p fl s =
     run_steps e self fl (Suc n)
       (s\<lparr>conversation_history := seed_history e p, tool_outputs := [], steps := 0\<rparr>)"
  by (simp add: get_consensus_answer_def nat_add_distrib)

text \<open>The state in which the example sessions start their loop.\<close>

lemma example_start:
  "get_consensus_answer e (example_system 20) p fl initial_state
     = run_steps e (example_system 20) fl (Suc 19)
         (initial_state\<lparr>conversation_history := seed_history e p\<rparr>)"
  by (simp add: get_consensus_answer_Suc[of _ 19] example_system_def initial_state_def)

subsection \<open>Replies that are not JSON\<close>

text \<open>
  C1 (as amended). When the expert's reply is not JSON, the session ends there with the
  outcome \<open>RawFallback\<close>, after one more iteration and without an exception; what it
  prints is the response object of the chat call, after the thinking trace if one is shown,
  and the raw reply is the last entry of the history.
\<close>

theorem raw_fallback_prints_response:
  assumes "expert_chat e (expert_model self) (expert_temp self) (thinking fl)
             (conversation_history s) = ChatOk r"
    and "json_loads (msg_content r) = None"
  shows "fst (run_steps e self fl (Suc n) s) = RawFallback
    \<and> stdout (snd (run_steps e self fl (Suc n) s))
        = stdout s @ thinking_prints fl r @ [PResponse r]
    \<and> steps (snd (run_steps e self fl (Suc n) s)) = Suc (steps s)
    \<and> conversation_history (snd (run_steps e self fl (Suc n) s))
        = conversation_history s @ [\<lparr>role = Assistant, content = msg_content r\<rparr>]"
  using run_steps_stop[OF loop_body_raw[OF assms], of n] by simp

theorem raw_fallback_prints_response_witness:
  "fst (get_consensus_answer (example_env prose_reply None) (example_system 20)
          ''What is six times seven?'' (example_flags False) initial_state)
     = RawFallback
   \<and> stdout (snd (get_consensus_answer (example_env prose_reply None) (example_system 20)
          ''What is six times seven?'' (example_flags False) initial_state))
     = [PResponse (Response ''I think the answer is 42'' None)]"
  using raw_fallback_prints_response[of "example_env prose_reply None"
      "example_system 20" "example_flags False"
      "initial_state\<lparr>conversation_history :=
          seed_history (example_env prose_reply None) ''What is six times seven?''\<rparr>"
      "Response prose_reply None" 19]
    loads_prose
  unfolding example_start
  by (simp add: example_flags_def initial_state_def thinking_prints_def prose_reply_def)

theorem raw_fallback_counterexample:
  "fst (get_consensus_answer (example_env prose_reply None) (example_system 20)
          ''What is six times seven?'' (example_flags False) initial_state)
     = RawFallback
   \<and> prose_reply = ''I think the answer is 42''
   \<and> stdout (snd (get_consensus_answer (example_env prose_reply None) (example_system 20)
          ''What is six times seven?'' (example_flags False) initial_state))
     \<noteq> [PText ''I think the answer is 42'']"
  using run_steps_stop[OF loop_body_raw[of "example_env prose_reply None"
      "example_system 20" "example_flags False"
      "initial_state\<lparr>conversation_history :=
          seed_history (example_env prose_reply None) ''What is six times seven?''\<rparr>"
      "Response prose_reply None"], of 19]
    loads_prose
  unfolding example_start
  by (simp add: example_flags_def initial_state_def thinking_prints_def prose_reply_def)

subsection \<open>The final answer\<close>





subsection \<open>Termination bound and exhaustion\<close>

lemma loop_body_search:
  assumes "expert_chat e (expert_model self) (expert_temp self) (thinking fl)
             (conversation_history s) = ChatOk (Response search_reply t)"
  shows "fst (loop_body e self fl s) = None"
proof -
  let ?r = "Response search_reply t"
  let ?d = "[(''tool'', JStr ''search_web''), (''query'', JStr ''x''), (''reason'', JStr ''r'')]"
  have "loop_body e self fl s = dispatch e self fl ?r ?d
     (s\<lparr>steps := Suc (steps s),
       stderr := stderr s @ [DStep (Suc (steps s)) (max_reasoning_steps self)],
       stdout := stdout s @ thinking_prints fl ?r,
       conversation_history :=
         conversation_history s @ [\<lparr>role = Assistant, content = msg_content ?r\<rparr>]\<rparr>)"
    by (rule loop_body_dict[OF assms]) (simp add: loads_search)
  moreover have "dict_get ?d ''tool'' JNull = JStr ''search_web''"
    by (simp add: dict_get_def)
  ultimately show ?thesis
    using dispatch_tool[of ?d "JStr ''search_web''" e self fl ?r] by simp
qed

lemma run_steps_search:
  assumes "\<forall>h. \<exists>t. expert_chat e (expert_model self) (expert_temp self) (thinking fl) h
             = ChatOk (Response search_reply t)"
  shows "fst (run_steps e self fl n s) = StepsExhausted
    \<and> steps (snd (run_steps e self fl n s)) = steps s + n"
proof (induction n arbitrary: s)
  case 0
  show ?case by simp
next
  case (Suc n)
  from assms obtain t where
    "expert_chat e (expert_model self) (expert_temp self) (thinking fl)
       (conversation_history s) = ChatOk (Response search_reply t)"
    by blast
  then have none: "fst (loop_body e self fl s) = None" by (rule loop_body_search)
  obtain s' where lb: "loop_body e self fl s = (None, s')"
    using none by (cases "loop_body e self fl s") simp
  have st: "steps s' = Suc (steps s)"
    using loop_body_steps[of e self fl s] lb by simp
  show ?case using lb Suc.IH[of s'] st by simp
qed

text \<open>
  C3. The loop of a session runs at most \<open>max_reasoning_steps\<close> iterations, whatever
  the expert replies, and the session ends; with an expert that always replies
  \<^verbatim>\<open>{"tool":"search_web","query":"x","reason":"r"}\<close> it ends with the outcome
  \<open>StepsExhausted\<close> after exactly \<open>max_reasoning_steps\<close> iterations: exactly 3
  when the bound is 3.
\<close>

theorem step_bound_and_exhaustion:
  "steps (snd (get_consensus_answer e self p fl s)) \<le> nat (max_reasoning_steps self)
   \<and> ((\<forall>h. \<exists>t. expert_chat e (expert_model self) (expert_temp self) (thinking fl) h
             = ChatOk (Response search_reply t))
        \<longrightarrow> fst (get_consensus_answer e self p fl s) = StepsExhausted
          \<and> steps (snd (get_consensus_answer e self p fl s)) = nat (max_reasoning_steps self))"
proof -
  let ?s = "s\<lparr>conversation_history := seed_history e p, tool_outputs := [], steps := 0\<rparr>"
  have "steps (snd (run_steps e self fl (nat (max_reasoning_steps self)) ?s))
      \<le> steps ?s + nat (max_reasoning_steps self)"
    by (rule run_steps_bound)
  then show ?thesis
    using run_steps_search[of e self fl "nat (max_reasoning_steps self)" ?s]
    by (simp add: get_consensus_answer_def)
qed

theorem step_bound_and_exhaustion_witness:
  "fst (get_consensus_answer (example_env search_reply None) (example_system 3)
          ''What is six times seven?'' (example_flags False) initial_state)
     = StepsExhausted
   \<and> steps (snd (get_consensus_answer (example_env search_reply None) (example_system 3)
          ''What is six times seven?'' (example_flags False) initial_state))
     = 3"
  using step_bound_and_exhaustion[of "example_env search_reply None" "example_system 3"
      "''What is six times seven?''" "example_flags False" initial_state]
  by (simp add: example_system_def)

subsection \<open>Unknown tools\<close>

lemma run_steps_unknown:
  assumes "expert_chat e (expert_model self) (expert_temp self) (thinking fl)
             (conversation_history s) = ChatOk r"
    and "json_loads (msg_content r) = Some (JObj d)"
    and "dict_get d ''tool'' JNull \<noteq> JStr ''llama_panel''"
    and "dict_get d ''tool'' JNull \<noteq> JStr ''search_web''"
    and "dict_get d ''tool'' JNull \<noteq> JStr ''read_webpage''"
    and "dict_get d ''tool'' JNull \<noteq> JStr ''final_answer''"
  shows "fst (run_steps e self fl (Suc n) s) = UnknownTool (dict_get d ''tool'' JNull)
    \<and> steps (snd (run_steps e self fl (Suc n) s)) = Suc (steps s)
    \<and> stdout (snd (run_steps e self fl (Suc n) s))
        = stdout s @ thinking_prints fl r @ [PResponse r]
    \<and> conversation_history (snd (run_steps e self fl (Suc n) s))
        = conversation_history s @ [\<lparr>role = Assistant, content = msg_content r\<rparr>]"
proof -
  let ?s = "s\<lparr>steps := Suc (steps s),
       stderr := stderr s @ [DStep (Suc (steps s)) (max_reasoning_steps self)],
       stdout := stdout s @ thinking_prints fl r,
       conversation_history :=
         conversation_history s @ [\<lparr>role = Assistant, content = msg_content r\<rparr>]\<rparr>"
  have lb: "loop_body e self fl s = dispatch e self fl r d ?s"
    by (rule loop_body_dict[OF assms(1,2)])
  note un = dispatch_unknown[OF refl assms(3-6), of e self fl r ?s]
  obtain s' where d: "dispatch e self fl r d ?s
      = (Some (UnknownTool (dict_get d ''tool'' JNull)), s')"
    using un by (cases "dispatch e self fl r d ?s") simp
  with un lb show ?thesis by simp
qed

text \<open>
  C6. When the expert's reply decodes to a dictionary whose tool is none of
  \<open>llama_panel\<close>, \<open>search_web\<close>, \<open>read_webpage\<close> and \<open>final_answer\<close>, the session
  ends with the outcome \<open>UnknownTool\<close> of that name in the iteration that received the
  reply: no further iteration runs, however many were left, and no tool result is added to
  the history. The reply \<^verbatim>\<open>{"tool":"fly_to_moon"}\<close> gives \<open>UnknownTool\<close> of
  \<^verbatim>\<open>fly_to_moon\<close>.
\<close>

theorem unknown_tool_terminates:
  assumes "expert_chat e (expert_model self) (expert_temp self) (thinking fl)
             (conversation_history s) = ChatOk r"
    and "json_loads (msg_content r) = Some (JObj d)"
    and "dict_get d ''tool'' JNull \<noteq> JStr ''llama_panel''"
    and "dict_get d ''tool'' JNull \<noteq> JStr ''search_web''"
    and "dict_get d ''tool'' JNull \<noteq> JStr ''read_webpage''"
    and "dict_get d ''tool'' JNull \<noteq> JStr ''final_answer''"
  shows "fst (run_steps e self fl (Suc n) s) = UnknownTool (dict_get d ''tool'' JNull)
    \<and> steps (snd (run_steps e self fl (Suc n) s)) = Suc (steps s)
    \<and> stdout (snd (run_steps e self fl (Suc n) s))
        = stdout s @ thinking_prints fl r @ [PResponse r]
    \<and> conversation_history (snd (run_steps e self fl (Suc n) s))
        = conversation_history s @ [\<lparr>role = Assistant, content = msg_content r\<rparr>]"
  using assms by (rule run_steps_unknown)

theorem unknown_tool_terminates_witness:
  "fst (get_consensus_answer (example_env fly_reply None) (example_system 20)
          ''What is six times seven?'' (example_flags False) initial_state)
     = UnknownTool (JStr ''fly_to_moon'')
   \<and> steps (snd (get_consensus_answer (example_env fly_reply None) (example_system 20)
          ''What is six times seven?'' (example_flags False) initial_state))
     = 1"
  using unknown_tool_terminates[of "example_env fly_reply None"
      "example_system 20" "example_flags False"
      "initial_state\<lparr>conversation_history :=
          seed_history (example_env fly_reply None) ''What is six times seven?''\<rparr>"
      "Response fly_reply None" "[(''tool'', JStr ''fly_to_moon'')]" 19]
    loads_fly
  unfolding example_start
  by (simp add: example_flags_def initial_state_def thinking_prints_def dict_get_def)

subsection \<open>The round trip of a final answer\<close>



subsection \<open>Replies that are JSON but not a dictionary\<close>

lemma run_steps_not_dict:
  assumes "expert_chat e (expert_model self) (expert_temp self) (thinking fl)
             (conversation_history s) = ChatOk r"
    and "json_loads (msg_content r) = Some v" and "\<not> is_dict v"
  shows "fst (run_steps e self fl (Suc n) s) = Failed (AttributeError v)
    \<and> stdout (snd (run_steps e self fl (Suc n) s)) = stdout s @ thinking_prints fl r"
  using run_steps_stop[OF loop_body_not_dict[OF assms], of n] by simp

lemma handler_status: "fst (handler x s) = 1"
  by (cases x) (simp_all add: handler_def)

lemma handler_stdout: "stdout (snd (handler x s)) = stdout s"
  by (cases x) (simp_all add: handler_def)

lemma main_first_reply_not_dict:
  assumes "question a = Some (c # cs)" and "0 < max_steps a"
    and "expert_chat e (fst (expert a)) (snd (expert a)) (thinking (arg_flags a))
           (seed_history e (c # cs)) = ChatOk r"
    and "json_loads (msg_content r) = Some v" and "\<not> is_dict v"
  shows "fst (main e a inputs) = 1
    \<and> stdout (snd (main e a inputs)) = thinking_prints (arg_flags a) r"
proof -
  obtain sys ds where es: "ExpertSystem a = (sys, ds)" by (cases "ExpertSystem a")
  let ?s = "initial_state\<lparr>stderr := ds,
      conversation_history := seed_history e (c # cs), tool_outputs := [], steps := 0\<rparr>"
  have sys: "expert_model sys = fst (expert a)" "expert_temp sys = snd (expert a)"
      "max_reasoning_steps sys = max_steps a"
    using es by (auto simp: ExpertSystem_def)
  obtain k where k: "nat (max_steps a) = Suc k"
    using assms(2) by (cases "nat (max_steps a)") auto
  have chat: "expert_chat e (expert_model sys) (expert_temp sys) (thinking (arg_flags a))
      (conversation_history ?s) = ChatOk r"
    using assms(3) sys by simp
  note run = run_steps_not_dict[OF chat assms(4,5), of k]
  have gca: "get_consensus_answer e sys (c # cs) (arg_flags a) (initial_state\<lparr>stderr := ds\<rparr>)
      = run_steps e sys (arg_flags a) (Suc k) ?s"
    using k sys by (simp add: get_consensus_answer_def)
  obtain s' where r: "run_steps e sys (arg_flags a) (Suc k) ?s = (Failed (AttributeError v), s')"
    using run by (cases "run_steps e sys (arg_flags a) (Suc k) ?s") simp
  have out: "stdout s' = thinking_prints (arg_flags a) r"
    using run r by (simp add: initial_state_def)
  have g: "get_consensus_answer e sys (c # cs) (arg_flags a) (initial_state\<lparr>stderr := ds\<rparr>)
      = (Failed (AttributeError v), s')"
    unfolding gca by (rule r)
  have "main e a inputs = handler (AttributeError v) s'"
    by (simp add: main_def es assms(1) g)
  then show ?thesis using out by (simp add: handler_status handler_stdout)
qed

text \<open>
  C10. When the expert's reply is valid JSON but not a dictionary, decoding succeeds and
  the access to the tool field raises \<^verbatim>\<open>AttributeError\<close> out of the loop: the outcome is
  neither \<open>RawFallback\<close> nor \<open>UnknownTool\<close>, nothing is printed to the standard output
  but the thinking trace if one is shown, the handler of \<^verbatim>\<open>main\<close> exits with status 1,
  and so does \<^verbatim>\<open>main\<close> when this is the first reply to the question of the command
  line.
\<close>

theorem non_dict_reply_exits_nonzero:
  assumes "json_loads (msg_content r) = Some v" and "\<not> is_dict v"
  shows "(expert_chat e (expert_model self) (expert_temp self) (thinking fl)
             (conversation_history s) = ChatOk r
          \<longrightarrow> fst (run_steps e self fl (Suc n) s) = Failed (AttributeError v)
            \<and> stdout (snd (run_steps e self fl (Suc n) s)) = stdout s @ thinking_prints fl r)
    \<and> fst (handler (AttributeError v) s') = 1
    \<and> stdout (snd (handler (AttributeError v) s')) = stdout s'
    \<and> (question a = Some (c # cs) \<and> 0 < max_steps a
        \<and> expert_chat e (fst (expert a)) (snd (expert a)) (thinking (arg_flags a))
             (seed_history e (c # cs)) = ChatOk r
        \<longrightarrow> fst (main e a inputs) = 1
          \<and> stdout (snd (main e a inputs)) = thinking_prints (arg_flags a) r)"
  using run_steps_not_dict[OF _ assms, of e self fl s n]
    main_first_reply_not_dict[OF _ _ _ assms, of a c cs e inputs]
  by (simp add: handler_status handler_stdout)

theorem non_dict_reply_exits_nonzero_witness:
  "fst (main (example_env string_42_reply None)
          (example_args (Some ''What is six times seven?'') 20) []) = 1
   \<and> stdout (snd (main (example_env string_42_reply None)
          (example_args (Some ''What is six times seven?'') 20) [])) = []"
  using non_dict_reply_exits_nonzero[of "Response string_42_reply None" "JStr ''42''"
      "example_env string_42_reply None" "example_system 20" "example_flags False"
      initial_state 0 initial_state
      "example_args (Some ''What is six times seven?'') 20" "CHR ''W''"
      "''hat is six times seven?''" "[]"]
    loads_string_42
  by (simp add: is_dict_def example_args_def example_flags_def thinking_prints_def)

subsection \<open>The panel\<close>

lemma panel_responses_map:
  "panel_responses e ps prompt = map (\<lambda>m. panel_section m (query e m prompt)) ps"
  unfolding panel_responses_def by (induction ps) simp_all

lemma panel_section_query:
  "panel_section m (query e m prompt) =
     (case panel_chat e (model m) (temperature m) prompt of
        ChatOk r \<Rightarrow>
          ''Response from '' @ [CHR 0x27] @ model m @ [CHR 0x27] @ '':\<newline>'' @ msg_content r
      | ChatResponseError err \<Rightarrow>
          ''Response from '' @ [CHR 0x27] @ model m @ [CHR 0x27]
            @ '':\<newline>Error: Could not get a response from model '' @ [CHR 0x27] @ model m
            @ [CHR 0x27] @ ''.''
      | ChatException msg \<Rightarrow> ''Exception from panelist '' @ model m @ '': '' @ msg)"
  by (simp add: panel_section_def query_def split: chat_result.splits)

text \<open>
  C4. The combined text of a panel consultation joins exactly one section per member, in
  the order of the panel, whatever calls fail: the section of a member whose call succeeds
  is its reply under the member's name, the section of a member whose call fails names the
  member and reports the failure; and the consultation never ends the session, the
  dispatch of \<open>llama_panel\<close> always lets the loop go on.
\<close>

theorem panel_fan_out_complete:
  "length (panel_responses e ps prompt) = length ps
   \<and> (\<forall>i<length ps. panel_responses e ps prompt ! i =
        (case panel_chat e (model (ps ! i)) (temperature (ps ! i)) prompt of
           ChatOk r \<Rightarrow>
             ''Response from '' @ [CHR 0x27] @ model (ps ! i) @ [CHR 0x27] @ '':\<newline>''
               @ msg_content r
         | ChatResponseError err \<Rightarrow>
             ''Response from '' @ [CHR 0x27] @ model (ps ! i) @ [CHR 0x27]
               @ '':\<newline>Error: Could not get a response from model '' @ [CHR 0x27]
               @ model (ps ! i) @ [CHR 0x27] @ ''.''
         | ChatException msg \<Rightarrow>
             ''Exception from panelist '' @ model (ps ! i) @ '': '' @ msg))
   \<and> fst (query_panel e ps qn outs)
       = join ''\<newline>\<newline>---\<newline>\<newline>'' (panel_responses e ps (panel_prompt e qn outs))
   \<and> (dict_get d ''tool'' JNull = JStr ''llama_panel''
        \<longrightarrow> fst (dispatch e self fl r d s) = None)"
proof -
  have "fst (query_panel e ps qn outs)
       = join ''\<newline>\<newline>---\<newline>\<newline>'' (panel_responses e ps (panel_prompt e qn outs))"
    by (simp add: query_panel_def Let_def)
  moreover have "dict_get d ''tool'' JNull = JStr ''llama_panel''
        \<longrightarrow> fst (dispatch e self fl r d s) = None"
    using dispatch_tool[of d "JStr ''llama_panel''" e self fl r s] by simp
  ultimately show ?thesis
    by (simp add: panel_responses_map panel_section_query)
qed

theorem panel_fan_out_complete_witness:
  "length (panel_responses (example_env search_reply None) example_panel (JStr ''Is it 42?''))
     = 3
   \<and> panel_responses (example_env search_reply None) example_panel (JStr ''Is it 42?'') ! 0
     = ''Response from '' @ [CHR 0x27] @ ''gemma3:4b'' @ [CHR 0x27] @ '':\<newline>Forty-two.''
   \<and> panel_responses (example_env search_reply None) example_panel (JStr ''Is it 42?'') ! 1
     = ''Response from '' @ [CHR 0x27] @ ''granite3.3:2b'' @ [CHR 0x27]
          @ '':\<newline>Error: Could not get a response from model '' @ [CHR 0x27]
          @ ''granite3.3:2b'' @ [CHR 0x27] @ ''.''
   \<and> panel_responses (example_env search_reply None) example_panel (JStr ''Is it 42?'') ! 2
     = ''Exception from panelist qwen3:4b: connection refused''"
proof -
  let ?e = "example_env search_reply None"
  let ?p = "JStr ''Is it 42?''"
  note t = panel_fan_out_complete[of ?e example_panel ?p "JStr []" "[]" "[]"
      "example_system 20" "example_flags False" "Response [] None" initial_state]
  from t have len: "length (panel_responses ?e example_panel ?p) = 3"
    by (simp add: example_panel_def)
  from t have nth: "\<And>i. i < length example_panel \<Longrightarrow> panel_responses ?e example_panel ?p ! i =
        (case panel_chat ?e (model (example_panel ! i)) (temperature (example_panel ! i)) ?p of
           ChatOk r \<Rightarrow>
             ''Response from '' @ [CHR 0x27] @ model (example_panel ! i) @ [CHR 0x27] @ '':\<newline>''
               @ msg_content r
         | ChatResponseError err \<Rightarrow>
             ''Response from '' @ [CHR 0x27] @ model (example_panel ! i) @ [CHR 0x27]
               @ '':\<newline>Error: Could not get a response from model '' @ [CHR 0x27]
               @ model (example_panel ! i) @ [CHR 0x27] @ ''.''
         | ChatException msg \<Rightarrow>
             ''Exception from panelist '' @ model (example_panel ! i) @ '': '' @ msg)"
    by blast
  have l3: "length example_panel = 3" by (simp add: example_panel_def)
  have n0: "example_panel ! 0 = \<lparr>model = ''gemma3:4b'', temperature = 0.5\<rparr>"
    and n1: "example_panel ! Suc 0 = \<lparr>model = ''granite3.3:2b'', temperature = 0.5\<rparr>"
    and n2: "example_panel ! 2 = \<lparr>model = ''qwen3:4b'', temperature = 0.5\<rparr>"
    by (simp_all add: example_panel_def)
  show ?thesis
    using len nth[of 0] nth[of 1] nth[of 2]
    by (simp add: l3 n0 n1 n2 example_env_def)
qed

text \<open>
  C5. Every member of the panel is asked with one and the same prompt. For a question
  \<open>q\<close> the prompt is \<open>q\<close> alone when there are no tool outputs; in general it is \<open>q\<close>
  followed, when the joined outputs are not empty, by a heading line and the outputs in
  their order, unchanged, with a blank line between two of them. For the question
  \<^verbatim>\<open>Q\<close> and the outputs \<^verbatim>\<open>A\<close>, \<^verbatim>\<open>B\<close> each of the three occurs exactly once in
  the prompt and in this order.
\<close>

theorem panel_prompt_construction:
  "snd (snd (query_panel e ps (JStr q) outs))
     = map (\<lambda>m. (model m, panel_prompt e (JStr q) outs)) ps
   \<and> fst (query_panel e ps (JStr q) outs)
     = join ''\<newline>\<newline>---\<newline>\<newline>''
         (map (\<lambda>m. panel_section m (query e m (panel_prompt e (JStr q) outs))) ps)
   \<and> panel_prompt e (JStr q) [] = JStr q
   \<and> panel_prompt e (JStr q) outs
     = JStr (q @ (if join ''\<newline>\<newline>'' outs = [] then []
                  else ''\<newline>\<newline>Context from previous tool outputs:\<newline>'')
               @ join ''\<newline>\<newline>'' outs)
   \<and> panel_prompt e (JStr ''Q'') [''A'', ''B'']
     = JStr ''Q\<newline>\<newline>Context from previous tool outputs:\<newline>A\<newline>\<newline>B''
   \<and> occurrences ''Q'' ''Q\<newline>\<newline>Context from previous tool outputs:\<newline>A\<newline>\<newline>B'' 0 = [0]
   \<and> occurrences ''A'' ''Q\<newline>\<newline>Context from previous tool outputs:\<newline>A\<newline>\<newline>B'' 0 = [39]
   \<and> occurrences ''B'' ''Q\<newline>\<newline>Context from previous tool outputs:\<newline>A\<newline>\<newline>B'' 0 = [42]"
proof -
  have a: "snd (snd (query_panel e ps (JStr q) outs))
     = map (\<lambda>m. (model m, panel_prompt e (JStr q) outs)) ps"
    by (simp add: query_panel_def Let_def)
  have b: "fst (query_panel e ps (JStr q) outs)
     = join ''\<newline>\<newline>---\<newline>\<newline>''
         (map (\<lambda>m. panel_section m (query e m (panel_prompt e (JStr q) outs))) ps)"
    by (simp add: query_panel_def Let_def panel_responses_map)
  have c: "panel_prompt e (JStr q) [] = JStr q"
    by (simp add: panel_prompt_def)
  have d: "panel_prompt e (JStr q) outs
     = JStr (q @ (if join ''\<newline>\<newline>'' outs = [] then []
                  else ''\<newline>\<newline>Context from previous tool outputs:\<newline>'')
               @ join ''\<newline>\<newline>'' outs)"
    by (simp add: panel_prompt_def Let_def)
  have f: "panel_prompt e (JStr ''Q'') [''A'', ''B'']
     = JStr ''Q\<newline>\<newline>Context from previous tool outputs:\<newline>A\<newline>\<newline>B''"
    by (simp add: panel_prompt_def)
  have g: "occurrences ''Q'' ''Q\<newline>\<newline>Context from previous tool outputs:\<newline>A\<newline>\<newline>B'' 0 = [0]"
    by code_simp
  have h: "occurrences ''A'' ''Q\<newline>\<newline>Context from previous tool outputs:\<newline>A\<newline>\<newline>B'' 0 = [39]"
    by code_simp
  have i: "occurrences ''B'' ''Q\<newline>\<newline>Context from previous tool outputs:\<newline>A\<newline>\<newline>B'' 0 = [42]"
    by code_simp
  from a b c d f g h i show ?thesis by (simp only: simp_thms)
qed

theorem panel_prompt_construction_witness:
  "snd (snd (query_panel (example_env search_reply None) example_panel (JStr ''Q'') [''A'', ''B'']))
     = [(''gemma3:4b'', JStr ''Q\<newline>\<newline>Context from previous tool outputs:\<newline>A\<newline>\<newline>B''),
        (''granite3.3:2b'', JStr ''Q\<newline>\<newline>Context from previous tool outputs:\<newline>A\<newline>\<newline>B''),
        (''qwen3:4b'', JStr ''Q\<newline>\<newline>Context from previous tool outputs:\<newline>A\<newline>\<newline>B'')]"
  using panel_prompt_construction[of "example_env search_reply None" example_panel "''Q''"
      "[''A'', ''B'']"]
  by (simp add: example_panel_def)

subsection \<open>What a session prints\<close>








end
